theory Spec2Isabelle
  imports Complex_Main
begin

section \<open>JavaScript numbers\<close>

text \<open>
  Every numeric value of the program is a JavaScript \<open>number\<close>. The model keeps the three
  special values of IEEE arithmetic apart from the finite ones; a finite number is an
  idealised real (rounding of doubles and the sign of zero are not modelled). The
  operations below follow ECMAScript on the special values: every operation on \<open>NaN\<close>
  gives \<open>NaN\<close>, every comparison with \<open>NaN\<close> is false, \<open>0 / 0\<close> is \<open>NaN\<close> and
  \<open>x / 0\<close> is an infinity for \<open>x \<noteq> 0\<close>.
\<close>

datatype jsnum = NaN | PInf | NInf | Fin real

fun js_neg :: "jsnum \<Rightarrow> jsnum" where
  "js_neg NaN = NaN"
| "js_neg PInf = NInf"
| "js_neg NInf = PInf"
| "js_neg (Fin a) = Fin (- a)"

fun js_add :: "jsnum \<Rightarrow> jsnum \<Rightarrow> jsnum" where
  "js_add NaN _ = NaN"
| "js_add _ NaN = NaN"
| "js_add PInf NInf = NaN"
| "js_add NInf PInf = NaN"
| "js_add PInf _ = PInf"
| "js_add _ PInf = PInf"
| "js_add NInf _ = NInf"
| "js_add _ NInf = NInf"
| "js_add (Fin a) (Fin b) = Fin (a + b)"

definition js_sub :: "jsnum \<Rightarrow> jsnum \<Rightarrow> jsnum" where
  "js_sub a b = js_add a (js_neg b)"

text \<open>The sign of a number that is not \<open>NaN\<close>: \<open>1\<close>, \<open>0\<close> or \<open>-1\<close>.\<close>

fun js_sign :: "jsnum \<Rightarrow> int" where
  "js_sign NaN = 0"
| "js_sign PInf = 1"
| "js_sign NInf = - 1"
| "js_sign (Fin a) = (if a > 0 then 1 else if a < 0 then - 1 else 0)"

definition js_inf :: "int \<Rightarrow> jsnum" where
  "js_inf sg = (if sg = 0 then NaN else if sg > 0 then PInf else NInf)"

fun js_mul :: "jsnum \<Rightarrow> jsnum \<Rightarrow> jsnum" where
  "js_mul NaN _ = NaN"
| "js_mul _ NaN = NaN"
| "js_mul (Fin a) (Fin b) = Fin (a * b)"
| "js_mul a b = js_inf (js_sign a * js_sign b)"

fun js_div :: "jsnum \<Rightarrow> jsnum \<Rightarrow> jsnum" where
  "js_div NaN _ = NaN"
| "js_div _ NaN = NaN"
| "js_div (Fin a) (Fin b) = (if b = 0 then js_inf (js_sign (Fin a)) else Fin (a / b))"
| "js_div (Fin a) _ = Fin 0"
| "js_div a (Fin b) = js_inf (js_sign a * (if b < 0 then - 1 else 1))"
| "js_div _ _ = NaN"

fun js_lt :: "jsnum \<Rightarrow> jsnum \<Rightarrow> bool" where
  "js_lt NaN _ = False"
| "js_lt _ NaN = False"
| "js_lt (Fin a) (Fin b) = (a < b)"
| "js_lt PInf _ = False"
| "js_lt _ PInf = True"
| "js_lt _ NInf = False"
| "js_lt NInf _ = True"

text \<open>\<open>a > b\<close> is \<open>b < a\<close>; \<open>a >= b\<close> is false on \<open>NaN\<close> and otherwise \<open>\<not> a < b\<close>.\<close>

definition js_gt :: "jsnum \<Rightarrow> jsnum \<Rightarrow> bool" where
  "js_gt a b = js_lt b a"

definition js_ge :: "jsnum \<Rightarrow> jsnum \<Rightarrow> bool" where
  "js_ge a b = (a \<noteq> NaN \<and> b \<noteq> NaN \<and> \<not> js_lt a b)"

text \<open>Strict equality \<open>===\<close> on numbers: \<open>NaN\<close> is not equal to itself.\<close>

definition js_eq :: "jsnum \<Rightarrow> jsnum \<Rightarrow> bool" where
  "js_eq a b = (a \<noteq> NaN \<and> a = b)"




text \<open>\<open>Math.round\<close>: the nearest integer, a half rounded towards \<open>+\<infinity>\<close>.\<close>

fun js_round :: "jsnum \<Rightarrow> jsnum" where
  "js_round (Fin a) = Fin (of_int \<lfloor>a + 1 / 2\<rfloor>)"
| "js_round a = a"

text \<open>A counter or a length read as a number.\<close>

definition js_nat :: "nat \<Rightarrow> jsnum" where
  "js_nat n = Fin (real n)"

section \<open>The volume meter (\<open>volume-meter.ts\<close>)\<close>

text \<open>
  The fields of \<open>VolumeMeter\<close> that hold data. \<open>processor\<close> and \<open>audioContext\<close> are
  handles of the Web Audio platform and carry no value the meter computes with.
\<close>

record VolumeMeter =
  clipLevel :: jsnum
  averaging :: jsnum
  clipLag :: jsnum
  volume :: jsnum
  lastClip :: jsnum
  clipping :: bool

text \<open>The constructor, with its default arguments passed as \<open>None\<close>.\<close>

definition VolumeMeter_new :: "jsnum option \<Rightarrow> jsnum option \<Rightarrow> jsnum option \<Rightarrow> VolumeMeter" where
  "VolumeMeter_new cl av lag =
     \<lparr> clipLevel = (case cl of None \<Rightarrow> Fin (98 / 100) | Some c \<Rightarrow> c),
       averaging = (case av of None \<Rightarrow> Fin (95 / 100) | Some a \<Rightarrow> a),
       clipLag = (case lag of None \<Rightarrow> Fin 750 | Some l \<Rightarrow> l),
       volume = Fin 0,
       lastClip = Fin 0,
       clipping = False \<rparr>"




text \<open>\<open>checkClipping\<close>, with the reading of \<open>window.performance.now()\<close> as a parameter.\<close>

definition checkClipping :: "jsnum \<Rightarrow> VolumeMeter \<Rightarrow> bool \<times> VolumeMeter" where
  "checkClipping now m =
     (if \<not> clipping m then (False, m)
      else let m1 = (if js_lt (js_add (lastClip m) (clipLag m)) now then m\<lparr> clipping := False \<rparr> else m)
           in (clipping m1, m1))"

section \<open>Events and payloads (\<open>events.ts\<close>)\<close>

text \<open>
  The text of an abort message, kept as the template that produced it and the two
  numbers substituted into it:
  \<^verbatim>\<open>signal duration (${signalDuration}) < MIN_SIGNAL_DURATION (${MIN_SIGNAL_DURATION})\<close> and
  \<^verbatim>\<open>signal average volume (${averageSignalValue}) < MIN_AVERAGE_SIGNAL_VOLUME (${MIN_AVERAGE_SIGNAL_VOLUME})\<close>.
\<close>

datatype abort_message =
    signal_duration_msg jsnum jsnum
  | signal_average_volume_msg jsnum jsnum

text \<open>
  The \<open>detail\<close> object of an event. A field that an object literal does not have is
  \<open>None\<close>: \<open>duration\<close> in the payload of \<open>prespeechstart\<close>, \<open>items\<close> in the payload of
  \<open>mute\<close>; \<open>abort\<close> is \<open>None\<close> when it is \<open>undefined\<close> or absent.
\<close>

record detail =
  d_event :: string
  d_volume :: jsnum
  d_timestamp :: jsnum
  d_duration :: "jsnum option"
  d_items :: "nat option"
  d_abort :: "abort_message option"

text \<open>
  Payload objects are shared between the events of a tick and one of them is written
  after it has been dispatched, so they live in a store: an object is its address, and
  the store lists the objects created so far (the address of an object is its index).
\<close>

type_synonym ref = nat
type_synonym heap = "detail list"

definition alloc :: "detail \<Rightarrow> heap \<Rightarrow> ref \<times> heap" where
  "alloc d h = (length h, h @ [d])"

text \<open>
  A dispatched event: its type, the payload object it was dispatched with, and the
  content of that object at the moment of the dispatch, which is what a listener reads.
\<close>

record dispatched =
  ev_type :: string
  ev_ref :: ref
  ev_detail :: detail

definition dispatchEvent :: "string \<Rightarrow> ref \<Rightarrow> heap \<Rightarrow> dispatched" where
  "dispatchEvent ty r h = \<lparr> ev_type = ty, ev_ref = r, ev_detail = h ! r \<rparr>"

section \<open>The detector (\<open>audioDetection.ts\<close>)\<close>

text \<open>
  The constants imported from \<open>audioDetectionConfig\<close>. That module is not part of the
  sources at hand, so its values are parameters of the model.
\<close>

record constants =
  MAX_INTERSPEECH_SILENCE_MSECS :: jsnum
  MIN_AVERAGE_SIGNAL_VOLUME :: jsnum
  MIN_SIGNAL_DURATION :: jsnum
  PRE_RECORD_START_MSECS :: jsnum
  SAMPLE_POLLING_MSECS :: jsnum
  VOLUME_MUTE :: jsnum
  VOLUME_SIGNAL :: jsnum
  VOLUME_SILENCE :: jsnum

text \<open>\<open>AudioDetectionConfig\<close>: every field is optional.\<close>

record AudioDetectionConfig =
  cfg_timeoutMilliSecs :: "jsnum option"
  cfg_prespeechstartMilliSecs :: "jsnum option"
  cfg_speakingMinVolume :: "jsnum option"
  cfg_silenceVolume :: "jsnum option"
  cfg_muteVolume :: "jsnum option"
  cfg_recordingEnabled :: "bool option"

text \<open>
  The fields of \<open>AudioDetection\<close>. The field \<open>meter\<close> is a reference to the volume meter,
  which the audio callback updates between ticks: the methods below take the meter as it
  is when they run and read \<open>volume\<close> from it.
\<close>

record AudioDetection =
  volumeState :: string
  speechStarted :: bool
  silenceItems :: nat
  signalItems :: nat
  speechstartTime :: jsnum
  prerecordingItems :: nat
  speechVolumesList :: "jsnum list"
  maxSilenceItems :: jsnum
  timeoutMilliSecs :: jsnum
  prespeechstartMilliSecs :: jsnum
  speakingMinVolume :: jsnum
  silenceVolume :: jsnum
  muteVolume :: jsnum
  recordingEnabled :: bool
  stopRunning :: bool

text \<open>The field initialisers and the body of the constructor.\<close>

definition AudioDetection_init :: "constants \<Rightarrow> AudioDetectionConfig \<Rightarrow> AudioDetection" where
  "AudioDetection_init C cfg =
     \<lparr> volumeState = ''mute'',
       speechStarted = False,
       silenceItems = 0,
       signalItems = 0,
       speechstartTime = Fin 0,
       prerecordingItems = 0,
       speechVolumesList = [],
       maxSilenceItems = js_round (js_div (MAX_INTERSPEECH_SILENCE_MSECS C) (SAMPLE_POLLING_MSECS C)),
       timeoutMilliSecs = (case cfg_timeoutMilliSecs cfg of None \<Rightarrow> SAMPLE_POLLING_MSECS C | Some v \<Rightarrow> v),
       prespeechstartMilliSecs = (case cfg_prespeechstartMilliSecs cfg of None \<Rightarrow> PRE_RECORD_START_MSECS C | Some v \<Rightarrow> v),
       speakingMinVolume = (case cfg_speakingMinVolume cfg of None \<Rightarrow> VOLUME_SIGNAL C | Some v \<Rightarrow> v),
       silenceVolume = (case cfg_silenceVolume cfg of None \<Rightarrow> VOLUME_SILENCE C | Some v \<Rightarrow> v),
       muteVolume = (case cfg_muteVolume cfg of None \<Rightarrow> VOLUME_MUTE C | Some v \<Rightarrow> v),
       recordingEnabled = (case cfg_recordingEnabled cfg of None \<Rightarrow> True | Some v \<Rightarrow> v),
       stopRunning = False \<rparr>"

text \<open>
  The outcome of \<open>new AudioDetection(meter, config)\<close>: the object, or the error thrown.
  Neither the initialisers nor the constructor have a \<open>throw\<close>, and none of the
  operations they use throws, so there is no branch that gives \<open>Inl\<close>.
\<close>

datatype config_error = ConfigError

definition AudioDetection_new :: "constants \<Rightarrow> AudioDetectionConfig \<Rightarrow> config_error + AudioDetection" where
  "AudioDetection_new C cfg = Inr (AudioDetection_init C cfg)"

text \<open>
  Modelled from the spec: \<open>average\<close> of \<open>./utils\<close>, the module that is missing from the
  sources. The spec names it \<open>average(segmentVolumes)\<close>, the average of the samples: their
  sum divided by their number, which is \<open>0 / 0\<close> on the empty list.
\<close>

definition average :: "jsnum list \<Rightarrow> jsnum" where
  "average xs = js_div (foldl js_add (Fin 0) xs) (js_nat (length xs))"

definition averageSignal :: "AudioDetection \<Rightarrow> jsnum" where
  "averageSignal this = average (speechVolumesList this)"

text \<open>
  Each method takes the object and the store and returns them updated, with the events
  it dispatched, in order. The listeners, which run inside \<open>dispatchEvent\<close>, are outside
  the detector: they are taken to leave its fields and the payload alone (they may call
  \<open>stop\<close>, which \<open>run\<close> accounts for).
\<close>

type_synonym world = "AudioDetection \<times> heap"

definition mute :: "VolumeMeter \<Rightarrow> jsnum \<Rightarrow> jsnum \<Rightarrow> world \<Rightarrow> world \<times> dispatched list" where
  "mute meter timestamp duration w =
     (let this = fst w;
          (eventData, h) = alloc \<lparr> d_event = ''mute'', d_volume = volume meter,
                d_timestamp = timestamp, d_duration = Some duration,
                d_items = None, d_abort = None \<rparr> (snd w);
          e1 = [dispatchEvent ''mute'' eventData h]
      in if volumeState this \<noteq> ''mute''
         then ((this\<lparr> volumeState := ''mute'' \<rparr>, h), e1 @ [dispatchEvent ''mutedmic'' eventData h])
         else ((this, h), e1))"

definition signal :: "VolumeMeter \<Rightarrow> jsnum \<Rightarrow> jsnum \<Rightarrow> world \<Rightarrow> world \<times> dispatched list" where
  "signal meter timestamp duration w =
     (let this1 = (fst w)\<lparr> silenceItems := 0 \<rparr>;
          this2 = this1\<lparr> signalItems := signalItems this1 + 1 \<rparr>;
          (eventData, h) = alloc \<lparr> d_event = ''signal'', d_volume = volume meter,
                d_timestamp = timestamp, d_duration = Some duration,
                d_items = Some (signalItems this2), d_abort = None \<rparr> (snd w);
          e1 = (if \<not> speechStarted this2 then [dispatchEvent ''speechstart'' eventData h] else []);
          this3 = (if \<not> speechStarted this2
                   then this2\<lparr> speechstartTime := timestamp, speechStarted := True,
                               speechVolumesList := [] \<rparr>
                   else this2);
          this4 = this3\<lparr> speechVolumesList := speechVolumesList this3 @ [volume meter] \<rparr>;
          e2 = e1 @ [dispatchEvent ''signal'' eventData h]
      in if volumeState this4 = ''mute''
         then ((this4\<lparr> volumeState := ''signal'' \<rparr>, h), e2 @ [dispatchEvent ''unmutedmic'' eventData h])
         else ((this4, h), e2))"

text \<open>
  The verdict of \<open>silence\<close>: the three-way branch taken when the silence run reaches
  \<open>maxSilenceItems\<close> during a speech. It writes \<open>abort\<close> into the payload object before
  it dispatches \<open>speechabort\<close>.
\<close>

definition verdict :: "constants \<Rightarrow> jsnum \<Rightarrow> ref \<Rightarrow> world \<Rightarrow> world \<times> dispatched list" where
  "verdict C duration eventData w =
     (let this = fst w; h = snd w;
          signalDuration = js_sub duration (MAX_INTERSPEECH_SILENCE_MSECS C);
          averageSignalValue = averageSignal this
      in if js_lt signalDuration (MIN_SIGNAL_DURATION C)
         then (let h1 = h[eventData := (h ! eventData)\<lparr> d_abort :=
                       Some (signal_duration_msg signalDuration (MIN_SIGNAL_DURATION C)) \<rparr>]
               in ((this\<lparr> speechStarted := False \<rparr>, h1), [dispatchEvent ''speechabort'' eventData h1]))
         else if js_lt averageSignalValue (MIN_AVERAGE_SIGNAL_VOLUME C)
         then (let h1 = h[eventData := (h ! eventData)\<lparr> d_abort :=
                       Some (signal_average_volume_msg averageSignalValue (MIN_AVERAGE_SIGNAL_VOLUME C)) \<rparr>]
               in ((this\<lparr> speechStarted := False \<rparr>, h1), [dispatchEvent ''speechabort'' eventData h1]))
         else ((this\<lparr> speechStarted := False \<rparr>, h), [dispatchEvent ''speechstop'' eventData h]))"

definition silence :: "constants \<Rightarrow> VolumeMeter \<Rightarrow> jsnum \<Rightarrow> jsnum \<Rightarrow> world \<Rightarrow> world \<times> dispatched list" where
  "silence C meter timestamp duration w =
     (let this1 = (fst w)\<lparr> signalItems := 0 \<rparr>;
          this2 = this1\<lparr> silenceItems := silenceItems this1 + 1 \<rparr>;
          (eventData, h) = alloc \<lparr> d_event = ''silence'', d_volume = volume meter,
                d_timestamp = timestamp, d_duration = Some duration,
                d_items = Some (silenceItems this2), d_abort = None \<rparr> (snd w);
          e1 = [dispatchEvent ''silence'' eventData h];
          e2 = (if volumeState this2 = ''mute'' then e1 @ [dispatchEvent ''unmutedmic'' eventData h] else e1);
          this3 = (if volumeState this2 = ''mute'' then this2\<lparr> volumeState := ''silence'' \<rparr> else this2)
      in if speechStarted this3 \<and> js_eq (js_nat (silenceItems this3)) (maxSilenceItems this3)
         then (let (w1, e3) = verdict C duration eventData (this3, h) in (w1, e2 @ e3))
         else ((this3, h), e2))"

definition sampleThresholdsDecision :: "constants \<Rightarrow> VolumeMeter \<Rightarrow> jsnum \<Rightarrow> world \<Rightarrow> world \<times> dispatched list" where
  "sampleThresholdsDecision C meter now w =
     (let timestamp = now;
          duration = js_sub timestamp (speechstartTime (fst w))
      in if js_lt (volume meter) (muteVolume (fst w)) then mute meter timestamp duration w
         else if js_gt (volume meter) (speakingMinVolume (fst w)) then signal meter timestamp duration w
         else silence C meter timestamp duration w)"

definition prerecording :: "VolumeMeter \<Rightarrow> jsnum \<Rightarrow> world \<Rightarrow> world \<times> dispatched list" where
  "prerecording meter now w =
     (let this1 = (fst w)\<lparr> prerecordingItems := prerecordingItems (fst w) + 1 \<rparr>;
          (eventData, h) = alloc \<lparr> d_event = ''prespeechstart'', d_volume = volume meter,
                d_timestamp = now, d_duration = None,
                d_items = Some (prerecordingItems this1), d_abort = None \<rparr> (snd w)
      in if js_ge (js_mul (js_nat (prerecordingItems this1)) (timeoutMilliSecs this1))
                  (prespeechstartMilliSecs this1)
         then ((this1\<lparr> prerecordingItems := 0 \<rparr>, h),
               (if \<not> speechStarted this1 then [dispatchEvent ''prespeechstart'' eventData h] else []))
         else ((this1, h), []))"

text \<open>
  What a tick reads from its environment: the meter, the two readings of \<open>Date.now()\<close>
  (in \<open>prerecording\<close> and in \<open>sampleThresholdsDecision\<close>), and whether \<open>stop()\<close> has been
  called by the time the body of the tick is over.
\<close>

record tick_input =
  meter :: VolumeMeter
  now_prerecording :: jsnum
  now_sampling :: jsnum
  stop_called :: bool

text \<open>The body of the timer callback of \<open>run\<close>, up to the test of \<open>stopRunning\<close>.\<close>

definition tick :: "constants \<Rightarrow> tick_input \<Rightarrow> world \<Rightarrow> world \<times> dispatched list" where
  "tick C x w =
     (let (w1, e1) = prerecording (meter x) (now_prerecording x) w
      in if recordingEnabled (fst w1)
         then (let (w2, e2) = sampleThresholdsDecision C (meter x) (now_sampling x) w1 in (w2, e1 @ e2))
         else (w1, e1))"

definition stop :: "world \<Rightarrow> world" where
  "stop w = ((fst w)\<lparr> stopRunning := True \<rparr>, snd w)"

text \<open>
  \<open>run\<close>: the timer fires, the tick runs, and the timer is set again unless \<open>stopRunning\<close>.
  The list holds what the successive ticks read; the run is followed for as long as the
  list goes, and gives the events of each tick, tick by tick.
\<close>

fun run :: "constants \<Rightarrow> tick_input list \<Rightarrow> world \<Rightarrow> world \<times> dispatched list list" where
  "run C [] w = (w, [])"
| "run C (x # xs) w =
     (let (w1, e) = tick C x w;
          w2 = (if stop_called x then stop w1 else w1)
      in if \<not> stopRunning (fst w2)
         then (let (w3, es) = run C xs w2 in (w3, e # es))
         else (w2, [e]))"

definition start :: "constants \<Rightarrow> tick_input list \<Rightarrow> world \<Rightarrow> world \<times> dispatched list list" where
  "start C xs w = run C xs ((fst w)\<lparr> stopRunning := False \<rparr>, snd w)"

section \<open>Vocabulary of the properties\<close>

text \<open>The event types, by kind.\<close>

definition sampling_events :: "string set" where
  "sampling_events = {''mute'', ''signal'', ''silence''}"

definition terminal_events :: "string set" where
  "terminal_events = {''speechstop'', ''speechabort''}"

definition mic_events :: "string set" where
  "mic_events = {''mutedmic'', ''unmutedmic''}"

definition derived_events :: "string set" where
  "derived_events = {''speechstart'', ''speechstop'', ''speechabort'', ''mutedmic'', ''unmutedmic''}"

text \<open>The types of the events in a list of dispatched events.\<close>

definition emitted :: "dispatched list \<Rightarrow> string set" where
  "emitted evs = set (map ev_type evs)"

text \<open>The branch that \<open>sampleThresholdsDecision\<close> takes, by the name of its method.\<close>

definition classify :: "VolumeMeter \<Rightarrow> AudioDetection \<Rightarrow> string" where
  "classify m this =
     (if js_lt (volume m) (muteVolume this) then ''mute''
      else if js_gt (volume m) (speakingMinVolume this) then ''signal''
      else ''silence'')"

text \<open>
  The test of \<open>prerecording\<close>, on the object as it is before the call (the counter is
  incremented first), and the test of \<open>silence\<close> that leads to the verdict, likewise.
\<close>

definition threshold_reached :: "AudioDetection \<Rightarrow> bool" where
  "threshold_reached this =
     js_ge (js_mul (js_nat (prerecordingItems this + 1)) (timeoutMilliSecs this))
           (prespeechstartMilliSecs this)"

definition resolves :: "AudioDetection \<Rightarrow> bool" where
  "resolves this =
     (speechStarted this \<and> js_eq (js_nat (silenceItems this + 1)) (maxSilenceItems this))"

text \<open>The type of the event that the verdict dispatches.\<close>

definition verdict_type :: "constants \<Rightarrow> jsnum \<Rightarrow> AudioDetection \<Rightarrow> string" where
  "verdict_type C duration this =
     (if js_lt (js_sub duration (MAX_INTERSPEECH_SILENCE_MSECS C)) (MIN_SIGNAL_DURATION C)
      then ''speechabort''
      else if js_lt (average (speechVolumesList this)) (MIN_AVERAGE_SIGNAL_VOLUME C)
      then ''speechabort''
      else ''speechstop'')"

text \<open>The types of the events of \<open>sampleThresholdsDecision\<close>, in the order of their dispatch.\<close>

definition sampling_types :: "constants \<Rightarrow> tick_input \<Rightarrow> AudioDetection \<Rightarrow> string list" where
  "sampling_types C x this =
     (if classify (meter x) this = ''mute''
      then ''mute'' # (if volumeState this \<noteq> ''mute'' then [''mutedmic''] else [])
      else if classify (meter x) this = ''signal''
      then (if \<not> speechStarted this then [''speechstart''] else []) @ ''signal'' #
           (if volumeState this = ''mute'' then [''unmutedmic''] else [])
      else ''silence'' # (if volumeState this = ''mute'' then [''unmutedmic''] else []) @
           (if resolves this
            then [verdict_type C (js_sub (now_sampling x) (speechstartTime this)) this] else []))"

text \<open>
  The payload object that \<open>mute\<close>, \<open>signal\<close> or \<open>silence\<close> builds, as the object literal
  leaves it (\<open>abort\<close> not yet written).
\<close>

definition sample_payload :: "tick_input \<Rightarrow> AudioDetection \<Rightarrow> detail" where
  "sample_payload x this =
     \<lparr> d_event = classify (meter x) this,
       d_volume = volume (meter x),
       d_timestamp = now_sampling x,
       d_duration = Some (js_sub (now_sampling x) (speechstartTime this)),
       d_items = (if classify (meter x) this = ''mute'' then None
                  else if classify (meter x) this = ''signal'' then Some (signalItems this + 1)
                  else Some (silenceItems this + 1)),
       d_abort = None \<rparr>"

text \<open>The world after a tick of \<open>run\<close>: \<open>stop()\<close> may have been called meanwhile.\<close>

definition after_tick :: "constants \<Rightarrow> tick_input \<Rightarrow> world \<Rightarrow> world" where
  "after_tick C x w = (if stop_called x then stop (fst (tick C x w)) else fst (tick C x w))"

text \<open>The invariant of a speech: while it goes on, its list of volumes is not empty.\<close>

definition segment_inv :: "AudioDetection \<Rightarrow> bool" where
  "segment_inv this = (speechStarted this \<longrightarrow> speechVolumesList this \<noteq> [])"

section \<open>Sample inputs\<close>


definition constants0 :: constants where
  "constants0 =
     \<lparr> MAX_INTERSPEECH_SILENCE_MSECS = Fin 600,
       MIN_AVERAGE_SIGNAL_VOLUME = Fin (4 / 100),
       MIN_SIGNAL_DURATION = Fin 400,
       PRE_RECORD_START_MSECS = Fin 600,
       SAMPLE_POLLING_MSECS = Fin 50,
       VOLUME_MUTE = Fin (1 / 10000),
       VOLUME_SIGNAL = Fin (2 / 100),
       VOLUME_SILENCE = Fin (1 / 1000) \<rparr>"

definition config_default :: AudioDetectionConfig where
  "config_default =
     \<lparr> cfg_timeoutMilliSecs = None, cfg_prespeechstartMilliSecs = None,
       cfg_speakingMinVolume = None, cfg_silenceVolume = None, cfg_muteVolume = None,
       cfg_recordingEnabled = None \<rparr>"

definition meter_at :: "real \<Rightarrow> VolumeMeter" where
  "meter_at v = (VolumeMeter_new None None None)\<lparr> volume := Fin v \<rparr>"

definition input_at :: "real \<Rightarrow> real \<Rightarrow> tick_input" where
  "input_at v t =
     \<lparr> meter = meter_at v, now_prerecording = Fin t, now_sampling = Fin t, stop_called = False \<rparr>"

definition world0 :: world where
  "world0 = (AudioDetection_init constants0 config_default, [])"

text \<open>Constants with which one tick of silence ends a speech, and a run of three ticks.\<close>

definition constants1 :: constants where
  "constants1 = constants0\<lparr> MAX_INTERSPEECH_SILENCE_MSECS := Fin 50 \<rparr>"

definition world1 :: world where
  "world1 = (AudioDetection_init constants1 config_default, [])"

definition world_speaking :: world where
  "world_speaking = fst (tick constants1 (input_at (1 / 2) 1000) world1)"

definition inputs1 :: "tick_input list" where
  "inputs1 = [input_at (1 / 1000) 1500, input_at (1 / 2) 1550, input_at (1 / 1000) 2050]"

text \<open>A configuration whose window is one tick long, and two ticks of a muted microphone.\<close>

definition config_pre :: AudioDetectionConfig where
  "config_pre = config_default\<lparr> cfg_prespeechstartMilliSecs := Some (Fin 50) \<rparr>"

definition world_pre :: world where
  "world_pre = (AudioDetection_init constants0 config_pre, [])"

definition inputs_pre :: "tick_input list" where
  "inputs_pre = [input_at 0 1000, input_at 0 1050]"

text \<open>Misconfigurations, and a configuration with a tick interval that is not the default.\<close>

definition constants_bad :: constants where
  "constants_bad = constants0\<lparr> MAX_INTERSPEECH_SILENCE_MSECS := Fin 10 \<rparr>"

definition config_bad :: AudioDetectionConfig where
  "config_bad = config_default\<lparr> cfg_muteVolume := Some (Fin (1 / 2)),
                                 cfg_speakingMinVolume := Some (Fin (3 / 10)) \<rparr>"

definition config100 :: AudioDetectionConfig where
  "config100 = config_default\<lparr> cfg_timeoutMilliSecs := Some (Fin 100) \<rparr>"

section \<open>The volume meter: proofs\<close>

















section \<open>The detector: what each method dispatches and leaves\<close>

lemma mute_types:
  "map ev_type (snd (mute m t d w)) =
     ''mute'' # (if volumeState (fst w) \<noteq> ''mute'' then [''mutedmic''] else [])"
  by (simp add: mute_def alloc_def dispatchEvent_def Let_def)

lemma signal_types:
  "map ev_type (snd (signal m t d w)) =
     (if \<not> speechStarted (fst w) then [''speechstart''] else []) @ ''signal'' #
     (if volumeState (fst w) = ''mute'' then [''unmutedmic''] else [])"
  by (simp add: signal_def alloc_def dispatchEvent_def Let_def)

lemma verdict_types:
  "map ev_type (snd (verdict C d r w)) = [verdict_type C d (fst w)]"
  by (simp add: verdict_def verdict_type_def averageSignal_def dispatchEvent_def Let_def)

lemma verdict_type_cases:
  "verdict_type C d this = ''speechabort'' \<or> verdict_type C d this = ''speechstop''"
  by (simp add: verdict_type_def)

lemma silence_types:
  "map ev_type (snd (silence C m t d w)) =
     ''silence'' # (if volumeState (fst w) = ''mute'' then [''unmutedmic''] else []) @
     (if resolves (fst w) then [verdict_type C d (fst w)] else [])"
  by (simp add: silence_def alloc_def resolves_def Let_def verdict_types case_prod_beta
        dispatchEvent_def)
     (simp add: verdict_type_def)

lemma prerecording_types:
  "map ev_type (snd (prerecording m t w)) =
     (if threshold_reached (fst w) \<and> \<not> speechStarted (fst w) then [''prespeechstart''] else [])"
  by (simp add: prerecording_def threshold_reached_def alloc_def dispatchEvent_def Let_def)

lemma prerecording_this:
  "fst (fst (prerecording m t w)) =
     (fst w)\<lparr> prerecordingItems :=
                (if threshold_reached (fst w) then 0 else prerecordingItems (fst w) + 1) \<rparr>"
  by (simp add: prerecording_def threshold_reached_def alloc_def Let_def)

lemma prerecording_heap: "snd (fst (prerecording m t w)) = snd w @
    [\<lparr> d_event = ''prespeechstart'', d_volume = volume m, d_timestamp = t, d_duration = None,
       d_items = Some (prerecordingItems (fst w) + 1), d_abort = None \<rparr>]"
  by (simp add: prerecording_def alloc_def Let_def)

lemma mute_this:
  "speechStarted (fst (fst (mute m t d w))) = speechStarted (fst w)"
  "speechVolumesList (fst (fst (mute m t d w))) = speechVolumesList (fst w)"
  "prerecordingItems (fst (fst (mute m t d w))) = prerecordingItems (fst w)"
  "timeoutMilliSecs (fst (fst (mute m t d w))) = timeoutMilliSecs (fst w)"
  "prespeechstartMilliSecs (fst (fst (mute m t d w))) = prespeechstartMilliSecs (fst w)"
  "stopRunning (fst (fst (mute m t d w))) = stopRunning (fst w)"
  by (simp_all add: mute_def alloc_def Let_def)

lemma signal_this:
  "speechStarted (fst (fst (signal m t d w))) = True"
  "speechVolumesList (fst (fst (signal m t d w))) =
     (if speechStarted (fst w) then speechVolumesList (fst w) else []) @ [volume m]"
  "speechstartTime (fst (fst (signal m t d w))) =
     (if speechStarted (fst w) then speechstartTime (fst w) else t)"
  "prerecordingItems (fst (fst (signal m t d w))) = prerecordingItems (fst w)"
  "timeoutMilliSecs (fst (fst (signal m t d w))) = timeoutMilliSecs (fst w)"
  "prespeechstartMilliSecs (fst (fst (signal m t d w))) = prespeechstartMilliSecs (fst w)"
  "stopRunning (fst (fst (signal m t d w))) = stopRunning (fst w)"
  by (simp_all add: signal_def alloc_def Let_def)

lemma verdict_this:
  "fst (fst (verdict C d r w)) = (fst w)\<lparr> speechStarted := False \<rparr>"
  by (simp add: verdict_def Let_def)

lemma silence_this:
  "speechStarted (fst (fst (silence C m t d w))) = (speechStarted (fst w) \<and> \<not> resolves (fst w))"
  "speechVolumesList (fst (fst (silence C m t d w))) = speechVolumesList (fst w)"
  "prerecordingItems (fst (fst (silence C m t d w))) = prerecordingItems (fst w)"
  "timeoutMilliSecs (fst (fst (silence C m t d w))) = timeoutMilliSecs (fst w)"
  "prespeechstartMilliSecs (fst (fst (silence C m t d w))) = prespeechstartMilliSecs (fst w)"
  "stopRunning (fst (fst (silence C m t d w))) = stopRunning (fst w)"
  by (auto simp add: silence_def alloc_def resolves_def Let_def case_prod_beta verdict_this)

text \<open>Every event of a sampling carries the object allocated by its method.\<close>

lemma mute_payload:
  "e \<in> set (snd (mute m t d w)) \<Longrightarrow>
     ev_ref e = length (snd w) \<and>
     ev_detail e = \<lparr> d_event = ''mute'', d_volume = volume m, d_timestamp = t,
                      d_duration = Some d, d_items = None, d_abort = None \<rparr>"
  by (auto simp add: mute_def alloc_def dispatchEvent_def Let_def split: if_splits)

lemma signal_payload:
  "e \<in> set (snd (signal m t d w)) \<Longrightarrow>
     ev_ref e = length (snd w) \<and>
     ev_detail e = \<lparr> d_event = ''signal'', d_volume = volume m, d_timestamp = t,
                      d_duration = Some d, d_items = Some (signalItems (fst w) + 1), d_abort = None \<rparr>"
  by (auto simp add: signal_def alloc_def dispatchEvent_def Let_def split: if_splits)

lemma verdict_payload:
  "e \<in> set (snd (verdict C d r (this, h @ [p]))) \<Longrightarrow> r = length h \<Longrightarrow>
     ev_ref e = r \<and> (ev_detail e)\<lparr> d_abort := None \<rparr> = p\<lparr> d_abort := None \<rparr>
     \<and> (ev_type e = ''speechabort'' \<or> ev_type e = ''speechstop'' \<and> d_abort (ev_detail e) = d_abort p)"
  by (auto simp add: verdict_def dispatchEvent_def Let_def split: if_splits)

lemma silence_payload:
  "e \<in> set (snd (silence C m t d w)) \<Longrightarrow>
     ev_ref e = length (snd w) \<and>
     (ev_detail e)\<lparr> d_abort := None \<rparr> =
        \<lparr> d_event = ''silence'', d_volume = volume m, d_timestamp = t,
          d_duration = Some d, d_items = Some (silenceItems (fst w) + 1), d_abort = None \<rparr>
     \<and> (d_abort (ev_detail e) \<noteq> None \<longrightarrow> ev_type e = ''speechabort'')"
  by (auto simp add: silence_def alloc_def dispatchEvent_def Let_def case_prod_beta
         split: if_splits dest!: verdict_payload)

lemma sampleThresholdsDecision_payload:
  "e \<in> set (snd (sampleThresholdsDecision C (meter x) (now_sampling x) w)) \<Longrightarrow>
     ev_ref e = length (snd w) \<and> (ev_detail e)\<lparr> d_abort := None \<rparr> = sample_payload x (fst w)
     \<and> (d_abort (ev_detail e) \<noteq> None \<longrightarrow> ev_type e = ''speechabort'')"
  by (auto simp add: sampleThresholdsDecision_def sample_payload_def classify_def Let_def
        dest!: mute_payload signal_payload silence_payload)

text \<open>\<open>classify\<close> names the branch that \<open>sampleThresholdsDecision\<close> takes.\<close>

lemma sampleThresholdsDecision_classify:
  "sampleThresholdsDecision C m t w =
     (if classify m (fst w) = ''mute'' then mute m t (js_sub t (speechstartTime (fst w))) w
      else if classify m (fst w) = ''signal'' then signal m t (js_sub t (speechstartTime (fst w))) w
      else silence C m t (js_sub t (speechstartTime (fst w))) w)"
  by (simp add: sampleThresholdsDecision_def classify_def Let_def)

lemma sampleThresholdsDecision_types:
  "map ev_type (snd (sampleThresholdsDecision C (meter x) (now_sampling x) w)) =
     sampling_types C x (fst w)"
  by (simp add: sampleThresholdsDecision_def sampling_types_def classify_def Let_def
        mute_types signal_types silence_types)

text \<open>The events of a tick are those of \<open>prerecording\<close>, then those of the sampling.\<close>

lemma tick_events:
  "snd (tick C x w) =
     snd (prerecording (meter x) (now_prerecording x) w) @
     (if recordingEnabled (fst w)
      then snd (sampleThresholdsDecision C (meter x) (now_sampling x)
                  (fst (prerecording (meter x) (now_prerecording x) w)))
      else [])"
  by (simp add: tick_def case_prod_beta Let_def prerecording_this)

lemma tick_types:
  "map ev_type (snd (tick C x w)) =
     (if threshold_reached (fst w) \<and> \<not> speechStarted (fst w) then [''prespeechstart''] else []) @
     (if recordingEnabled (fst w) then sampling_types C x (fst w) else [])"
  by (simp add: tick_events prerecording_types prerecording_this
        sampleThresholdsDecision_types sampling_types_def classify_def resolves_def verdict_type_def)

lemma classify_prerecordingItems [simp]:
  "classify m (this\<lparr> prerecordingItems := n \<rparr>) = classify m this"
  by (simp add: classify_def)

lemma sample_payload_prerecordingItems [simp]:
  "sample_payload x (this\<lparr> prerecordingItems := n \<rparr>) = sample_payload x this"
  by (simp add: sample_payload_def)

lemma resolves_prerecordingItems [simp]:
  "resolves (this\<lparr> prerecordingItems := n \<rparr>) = resolves this"
  by (simp add: resolves_def)

lemma verdict_type_prerecordingItems [simp]:
  "verdict_type C d (this\<lparr> prerecordingItems := n \<rparr>) = verdict_type C d this"
  by (simp add: verdict_type_def)

lemma sampling_types_prerecordingItems [simp]:
  "sampling_types C x (this\<lparr> prerecordingItems := n \<rparr>) = sampling_types C x this"
  by (simp add: sampling_types_def)

lemma classify_sampling: "classify m this \<in> sampling_events"
  by (simp add: classify_def sampling_events_def)

lemma classify_in_sampling_types: "classify (meter x) this \<in> set (sampling_types C x this)"
  by (simp add: sampling_types_def classify_def)

lemma sampling_types_mem:
  assumes "ty \<in> set (sampling_types C x this)"
  shows "ty \<in> terminal_events \<longrightarrow> classify (meter x) this = ''silence'' \<and> resolves this"
    and "ty = ''speechstart'' \<longrightarrow> classify (meter x) this = ''signal'' \<and> \<not> speechStarted this"
    and "ty = ''mutedmic'' \<longrightarrow> classify (meter x) this = ''mute''"
    and "ty = ''unmutedmic'' \<longrightarrow> classify (meter x) this \<noteq> ''mute'' \<and> volumeState this = ''mute''"
    and "ty \<in> sampling_events \<longrightarrow> ty = classify (meter x) this"
    and "ty \<noteq> ''prespeechstart''"
  using assms verdict_type_cases [of C "js_sub (now_sampling x) (speechstartTime this)" this]
  by (auto simp add: sampling_types_def terminal_events_def sampling_events_def classify_def
        split: if_splits)

lemma prerecording_event_type:
  "e \<in> set (snd (prerecording m t w)) \<Longrightarrow> ev_type e = ''prespeechstart''"
  using prerecording_types [of m t w]
  by (auto simp add: prerecording_def alloc_def dispatchEvent_def Let_def split: if_splits)

text \<open>A derived event of a tick is an event of its sampling.\<close>

lemma tick_derived_event:
  assumes "e \<in> set (snd (tick C x w))" "ev_type e \<noteq> ''prespeechstart''"
  shows "recordingEnabled (fst w) \<and>
         e \<in> set (snd (sampleThresholdsDecision C (meter x) (now_sampling x)
                  (fst (prerecording (meter x) (now_prerecording x) w))))"
  using assms prerecording_event_type [of e "meter x" "now_prerecording x" w]
  by (auto simp add: tick_events split: if_splits)

lemma sampling_event_exists:
  "\<exists>s\<in>set (snd (sampleThresholdsDecision C (meter (x::tick_input)) (now_sampling x) w)).
      ev_type s = classify (meter x) (fst w)"
proof -
  have "classify (meter x) (fst w) \<in> set (map ev_type (snd (sampleThresholdsDecision C (meter x) (now_sampling x) w)))"
    unfolding sampleThresholdsDecision_types by (rule classify_in_sampling_types)
  then show ?thesis by auto
qed


section \<open>Ticks and runs\<close>

lemma tick_this:
  "fst (fst (tick C x w)) =
     (if recordingEnabled (fst w)
      then fst (fst (sampleThresholdsDecision C (meter x) (now_sampling x)
                  (fst (prerecording (meter x) (now_prerecording x) w))))
      else fst (fst (prerecording (meter x) (now_prerecording x) w)))"
  by (simp add: tick_def case_prod_beta Let_def prerecording_this)

lemma sampleThresholdsDecision_speechStarted:
  "speechStarted (fst (fst (sampleThresholdsDecision C m t w))) =
     (if classify m (fst w) = ''mute'' then speechStarted (fst w)
      else if classify m (fst w) = ''signal'' then True
      else speechStarted (fst w) \<and> \<not> resolves (fst w))"
  by (simp add: sampleThresholdsDecision_def classify_def Let_def mute_this signal_this silence_this)

lemma tick_speechStarted:
  "speechStarted (fst (fst (tick C x w))) =
     (if recordingEnabled (fst w)
      then (if classify (meter x) (fst w) = ''mute'' then speechStarted (fst w)
            else if classify (meter x) (fst w) = ''signal'' then True
            else speechStarted (fst w) \<and> \<not> resolves (fst w))
      else speechStarted (fst w))"
  by (simp add: tick_this sampleThresholdsDecision_speechStarted prerecording_this)

lemma emitted_tick:
  "emitted (snd (tick C x w)) =
     set ((if threshold_reached (fst w) \<and> \<not> speechStarted (fst w) then [''prespeechstart''] else []) @
          (if recordingEnabled (fst w) then sampling_types C x (fst w) else []))"
  by (simp only: emitted_def tick_types)

lemma tick_terminal_iff:
  "(emitted (snd (tick C x w)) \<inter> terminal_events \<noteq> {}) =
     (recordingEnabled (fst w) \<and> classify (meter x) (fst w) = ''silence'' \<and> resolves (fst w))"
  using verdict_type_cases [of C "js_sub (now_sampling x) (speechstartTime (fst w))" "fst w"]
  by (auto simp add: emitted_tick sampling_types_def terminal_events_def classify_def)

lemma tick_speechstart_iff:
  "(''speechstart'' \<in> emitted (snd (tick C x w))) =
     (recordingEnabled (fst w) \<and> classify (meter x) (fst w) = ''signal'' \<and> \<not> speechStarted (fst w))"
  using verdict_type_cases [of C "js_sub (now_sampling x) (speechstartTime (fst w))" "fst w"]
  by (auto simp add: emitted_tick sampling_types_def classify_def)

lemma tick_terminal_stops:
  "emitted (snd (tick C x w)) \<inter> terminal_events \<noteq> {} \<Longrightarrow> \<not> speechStarted (fst (fst (tick C x w)))"
  by (simp add: tick_terminal_iff tick_speechStarted)

lemma tick_terminal_requires:
  "emitted (snd (tick C x w)) \<inter> terminal_events \<noteq> {} \<Longrightarrow> speechStarted (fst w)"
  by (simp add: tick_terminal_iff resolves_def)

lemma tick_starts:
  "\<not> speechStarted (fst w) \<Longrightarrow> speechStarted (fst (fst (tick C x w))) \<Longrightarrow>
     ''speechstart'' \<in> emitted (snd (tick C x w))"
  by (simp add: tick_speechstart_iff tick_speechStarted split: if_splits)

lemma stop_speechStarted [simp]: "speechStarted (fst (stop w)) = speechStarted (fst w)"
  by (simp add: stop_def)

lemma run_Cons:
  "run C (x # xs) w =
     (if \<not> stopRunning (fst (after_tick C x w))
      then (fst (run C xs (after_tick C x w)), snd (tick C x w) # snd (run C xs (after_tick C x w)))
      else (after_tick C x w, [snd (tick C x w)]))"
  by (simp add: after_tick_def case_prod_beta Let_def)

declare run.simps(2) [simp del]

lemma after_tick_speechStarted [simp]:
  "speechStarted (fst (after_tick C x w)) = speechStarted (fst (fst (tick C x w)))"
  by (simp add: after_tick_def)

lemma run_first_terminal:
  "\<not> speechStarted (fst w) \<Longrightarrow> j < length (snd (run C xs w)) \<Longrightarrow>
   emitted (snd (run C xs w) ! j) \<inter> terminal_events \<noteq> {} \<Longrightarrow>
   \<exists>k<j. ''speechstart'' \<in> emitted (snd (run C xs w) ! k)"
proof (induction xs arbitrary: w j)
  case Nil
  then show ?case by simp
next
  case (Cons x xs)
  show ?case
  proof (cases j)
    case 0
    with Cons.prems have "emitted (snd (tick C x w)) \<inter> terminal_events \<noteq> {}"
      by (simp add: run_Cons split: if_splits)
    with Cons.prems(1) show ?thesis using tick_terminal_requires by blast
  next
    case (Suc j')
    with Cons.prems have go: "\<not> stopRunning (fst (after_tick C x w))"
      and j': "j' < length (snd (run C xs (after_tick C x w)))"
      and t: "emitted (snd (run C xs (after_tick C x w)) ! j') \<inter> terminal_events \<noteq> {}"
      by (simp_all add: run_Cons split: if_splits)
    show ?thesis
    proof (cases "speechStarted (fst (after_tick C x w))")
      case True
      with Cons.prems(1) have "''speechstart'' \<in> emitted (snd (tick C x w))"
        by (simp add: tick_starts)
      then have "''speechstart'' \<in> emitted (snd (run C (x # xs) w) ! 0)"
        by (simp add: run_Cons)
      with Suc show ?thesis by blast
    next
      case False
      from Cons.IH [OF False j' t] obtain k where "k < j'"
        "''speechstart'' \<in> emitted (snd (run C xs (after_tick C x w)) ! k)" by blast
      then have "Suc k < j \<and> ''speechstart'' \<in> emitted (snd (run C (x # xs) w) ! Suc k)"
        using Suc go by (simp add: run_Cons)
      then show ?thesis by blast
    qed
  qed
qed

lemma run_between_terminals:
  "i < j \<Longrightarrow> j < length (snd (run C xs w)) \<Longrightarrow>
   emitted (snd (run C xs w) ! i) \<inter> terminal_events \<noteq> {} \<Longrightarrow>
   emitted (snd (run C xs w) ! j) \<inter> terminal_events \<noteq> {} \<Longrightarrow>
   \<exists>k. i < k \<and> k < j \<and> ''speechstart'' \<in> emitted (snd (run C xs w) ! k)"
proof (induction xs arbitrary: w i j)
  case Nil
  then show ?case by simp
next
  case (Cons x xs)
  from Cons.prems obtain j' where j: "j = Suc j'" by (cases j) auto
  with Cons.prems have go: "\<not> stopRunning (fst (after_tick C x w))"
    and j': "j' < length (snd (run C xs (after_tick C x w)))"
    and tj: "emitted (snd (run C xs (after_tick C x w)) ! j') \<inter> terminal_events \<noteq> {}"
    by (simp_all add: run_Cons split: if_splits)
  show ?case
  proof (cases i)
    case 0
    with Cons.prems have "emitted (snd (tick C x w)) \<inter> terminal_events \<noteq> {}"
      by (simp add: run_Cons split: if_splits)
    then have "\<not> speechStarted (fst (after_tick C x w))" by (simp add: tick_terminal_stops)
    from run_first_terminal [OF this j' tj] obtain k where "k < j'"
      "''speechstart'' \<in> emitted (snd (run C xs (after_tick C x w)) ! k)" by blast
    then have "i < Suc k \<and> Suc k < j \<and> ''speechstart'' \<in> emitted (snd (run C (x # xs) w) ! Suc k)"
      using 0 j go by (simp add: run_Cons)
    then show ?thesis by blast
  next
    case (Suc i')
    with Cons.prems j go have "i' < j'"
      and ti: "emitted (snd (run C xs (after_tick C x w)) ! i') \<inter> terminal_events \<noteq> {}"
      by (simp_all add: run_Cons)
    from Cons.IH [OF this(1) j' ti tj] obtain k where "i' < k" "k < j'"
      "''speechstart'' \<in> emitted (snd (run C xs (after_tick C x w)) ! k)" by blast
    then have "i < Suc k \<and> Suc k < j \<and> ''speechstart'' \<in> emitted (snd (run C (x # xs) w) ! Suc k)"
      using Suc j go by (simp add: run_Cons)
    then show ?thesis by blast
  qed
qed

section \<open>The verdict of a speech\<close>

text \<open>The definitions to unfold when a tick is evaluated on a concrete input.\<close>

lemmas eval_defs = tick_def prerecording_def sampleThresholdsDecision_def mute_def signal_def
  silence_def verdict_def alloc_def dispatchEvent_def averageSignal_def average_def
  js_sub_def js_gt_def js_ge_def js_eq_def js_nat_def js_inf_def
  AudioDetection_init_def constants0_def constants1_def config_default_def
  input_at_def meter_at_def VolumeMeter_new_def world0_def world1_def Let_def

lemma world_speaking_eq:
  "world_speaking =
    (\<lparr>volumeState = ''signal'', speechStarted = True, silenceItems = 0,
       signalItems = 1, speechstartTime = Fin 1000, prerecordingItems = 1,
       speechVolumesList = [Fin (1 / 2)], maxSilenceItems = Fin 1,
       timeoutMilliSecs = Fin 50, prespeechstartMilliSecs = Fin 600,
       speakingMinVolume = Fin (1 / 50), silenceVolume = Fin (1 / 1000),
       muteVolume = Fin (1 / 10000), recordingEnabled = True,
       stopRunning = False\<rparr>,
     [\<lparr>d_event = ''prespeechstart'', d_volume = Fin (1 / 2), d_timestamp = Fin 1000,
        d_duration = None, d_items = Some 1, d_abort = None\<rparr>,
      \<lparr>d_event = ''signal'', d_volume = Fin (1 / 2), d_timestamp = Fin 1000,
        d_duration = Some (Fin 1000), d_items = Some 1, d_abort = None\<rparr>])"
  by (simp add: world_speaking_def eval_defs)

lemma run1_types:
  "map (map ev_type) (snd (run constants1 inputs1 world_speaking)) =
     [[''silence'', ''speechstop''], [''speechstart'', ''signal''], [''silence'', ''speechstop'']]"
  by (simp add: world_speaking_eq inputs1_def run_Cons after_tick_def stop_def eval_defs)

lemma filter_types:
  "map ev_type (filter (\<lambda>e. ev_type e \<in> T) evs) = filter (\<lambda>t. t \<in> T) (map ev_type evs)"
  by (induction evs) simp_all

lemma tick_silenceItems:
  "recordingEnabled (fst w) \<Longrightarrow> classify (meter x) (fst w) = ''silence'' \<Longrightarrow>
     silenceItems (fst (fst (tick C x w))) = silenceItems (fst w) + 1"
  by (auto simp add: tick_this prerecording_this sampleThresholdsDecision_def classify_def
        silence_def alloc_def Let_def case_prod_beta verdict_this split: if_splits)

text \<open>
  C1. In a tick, the terminal events dispatched are exactly one, on a tick of silence during
  a speech whose count of silent ticks (this one included) equals \<open>maxSilenceItems\<close>, and
  none on any other tick. The one event is \<open>speechabort\<close> when the duration less
  \<open>MAX_INTERSPEECH_SILENCE_MSECS\<close> is below \<open>MIN_SIGNAL_DURATION\<close>, else \<open>speechabort\<close> when
  the average of \<open>speechVolumesList\<close> is below \<open>MIN_AVERAGE_SIGNAL_VOLUME\<close>, else
  \<open>speechstop\<close>; in each case \<open>speechStarted\<close> is false afterwards. In a run, between two
  ticks with a terminal event there is a tick with \<open>speechstart\<close>: a speech gets one
  terminal event.
\<close>

theorem silence_verdict_once_per_segment:
  "map ev_type (filter (\<lambda>e. ev_type e \<in> terminal_events) (snd (tick C x w))) =
     (if recordingEnabled (fst w) \<and> classify (meter x) (fst w) = ''silence'' \<and>
         speechStarted (fst w) \<and> js_eq (js_nat (silenceItems (fst w) + 1)) (maxSilenceItems (fst w))
      then [if js_lt (js_sub (js_sub (now_sampling x) (speechstartTime (fst w)))
                             (MAX_INTERSPEECH_SILENCE_MSECS C)) (MIN_SIGNAL_DURATION C)
            then ''speechabort''
            else if js_lt (average (speechVolumesList (fst w))) (MIN_AVERAGE_SIGNAL_VOLUME C)
            then ''speechabort''
            else ''speechstop'']
      else [])
   \<and> (recordingEnabled (fst w) \<and> classify (meter x) (fst w) = ''silence'' \<and>
         speechStarted (fst w) \<and> js_eq (js_nat (silenceItems (fst w) + 1)) (maxSilenceItems (fst w))
       \<longrightarrow> \<not> speechStarted (fst (fst (tick C x w)))
           \<and> js_eq (js_nat (silenceItems (fst (fst (tick C x w))))) (maxSilenceItems (fst w)))
   \<and> (\<forall>i j. i < j \<and> j < length (snd (run C xs w)) \<and>
         emitted (snd (run C xs w) ! i) \<inter> terminal_events \<noteq> {} \<and>
         emitted (snd (run C xs w) ! j) \<inter> terminal_events \<noteq> {}
       \<longrightarrow> (\<exists>k. i < k \<and> k < j \<and> ''speechstart'' \<in> emitted (snd (run C xs w) ! k)))"
proof (intro conjI)
  show "map ev_type (filter (\<lambda>e. ev_type e \<in> terminal_events) (snd (tick C x w))) =
     (if recordingEnabled (fst w) \<and> classify (meter x) (fst w) = ''silence'' \<and>
         speechStarted (fst w) \<and> js_eq (js_nat (silenceItems (fst w) + 1)) (maxSilenceItems (fst w))
      then [if js_lt (js_sub (js_sub (now_sampling x) (speechstartTime (fst w)))
                             (MAX_INTERSPEECH_SILENCE_MSECS C)) (MIN_SIGNAL_DURATION C)
            then ''speechabort''
            else if js_lt (average (speechVolumesList (fst w))) (MIN_AVERAGE_SIGNAL_VOLUME C)
            then ''speechabort''
            else ''speechstop'']
      else [])"
    unfolding filter_types tick_types
    by (simp add: sampling_types_def terminal_events_def resolves_def verdict_type_def classify_def)
next
  show "recordingEnabled (fst w) \<and> classify (meter x) (fst w) = ''silence'' \<and>
         speechStarted (fst w) \<and> js_eq (js_nat (silenceItems (fst w) + 1)) (maxSilenceItems (fst w))
       \<longrightarrow> \<not> speechStarted (fst (fst (tick C x w)))
           \<and> js_eq (js_nat (silenceItems (fst (fst (tick C x w))))) (maxSilenceItems (fst w))"
    by (simp add: tick_speechStarted resolves_def tick_silenceItems)
next
  show "\<forall>i j. i < j \<and> j < length (snd (run C xs w)) \<and>
         emitted (snd (run C xs w) ! i) \<inter> terminal_events \<noteq> {} \<and>
         emitted (snd (run C xs w) ! j) \<inter> terminal_events \<noteq> {}
       \<longrightarrow> (\<exists>k. i < k \<and> k < j \<and> ''speechstart'' \<in> emitted (snd (run C xs w) ! k))"
    using run_between_terminals [of _ _ C xs w] by blast
qed


lemma run1_emitted:
  "length (snd (run constants1 inputs1 world_speaking)) = 3"
  "emitted (snd (run constants1 inputs1 world_speaking) ! 0) = {''silence'', ''speechstop''}"
  "emitted (snd (run constants1 inputs1 world_speaking) ! 1) = {''speechstart'', ''signal''}"
  "emitted (snd (run constants1 inputs1 world_speaking) ! 2) = {''silence'', ''speechstop''}"
proof -
  let ?tr = "snd (run constants1 inputs1 world_speaking)"
  have len: "length (map (map ev_type) ?tr) = 3" by (simp only: run1_types) simp
  then show l: "length ?tr = 3" by simp
  have n: "\<And>i. i < 3 \<Longrightarrow> emitted (?tr ! i) = set (map (map ev_type) ?tr ! i)"
    using l by (simp add: emitted_def)
  show "emitted (?tr ! 0) = {''silence'', ''speechstop''}"
    using n [of 0] by (simp only: run1_types) simp
  show "emitted (?tr ! 1) = {''speechstart'', ''signal''}"
    using n [of 1] by (simp only: run1_types) simp
  show "emitted (?tr ! 2) = {''silence'', ''speechstop''}"
    using n [of 2] by (simp only: run1_types) simp
qed

theorem silence_verdict_once_per_segment_witness:
  "recordingEnabled (fst world_speaking)
   \<and> classify (meter (input_at (1 / 1000) 1500)) (fst world_speaking) = ''silence''
   \<and> speechStarted (fst world_speaking)
   \<and> js_eq (js_nat (silenceItems (fst world_speaking) + 1)) (maxSilenceItems (fst world_speaking))
   \<and> map ev_type (filter (\<lambda>e. ev_type e \<in> terminal_events)
         (snd (tick constants1 (input_at (1 / 1000) 1500) world_speaking))) = [''speechstop'']
   \<and> \<not> speechStarted (fst (fst (tick constants1 (input_at (1 / 1000) 1500) world_speaking)))
   \<and> (0::nat) < 2 \<and> 2 < length (snd (run constants1 inputs1 world_speaking))
   \<and> emitted (snd (run constants1 inputs1 world_speaking) ! 0) \<inter> terminal_events \<noteq> {}
   \<and> emitted (snd (run constants1 inputs1 world_speaking) ! 2) \<inter> terminal_events \<noteq> {}
   \<and> (\<exists>k. 0 < k \<and> k < 2 \<and> ''speechstart'' \<in> emitted (snd (run constants1 inputs1 world_speaking) ! k))"
proof -
  let ?x = "input_at (1 / 1000) 1500"
  have h: "recordingEnabled (fst world_speaking)
      \<and> classify (meter ?x) (fst world_speaking) = ''silence''
      \<and> speechStarted (fst world_speaking)
      \<and> js_eq (js_nat (silenceItems (fst world_speaking) + 1)) (maxSilenceItems (fst world_speaking))"
    by (simp add: world_speaking_eq classify_def eval_defs)
  have v: "\<not> js_lt (js_sub (js_sub (now_sampling ?x) (speechstartTime (fst world_speaking)))
                 (MAX_INTERSPEECH_SILENCE_MSECS constants1)) (MIN_SIGNAL_DURATION constants1)"
          "\<not> js_lt (average (speechVolumesList (fst world_speaking))) (MIN_AVERAGE_SIGNAL_VOLUME constants1)"
    by (simp_all add: world_speaking_eq eval_defs)
  have r: "(0::nat) < 2 \<and> 2 < length (snd (run constants1 inputs1 world_speaking))
     \<and> emitted (snd (run constants1 inputs1 world_speaking) ! 0) \<inter> terminal_events \<noteq> {}
     \<and> emitted (snd (run constants1 inputs1 world_speaking) ! 2) \<inter> terminal_events \<noteq> {}"
    by (simp add: run1_emitted terminal_events_def)
  note c1 = silence_verdict_once_per_segment [of constants1 ?x world_speaking inputs1]
  from c1 h v have a: "map ev_type (filter (\<lambda>e. ev_type e \<in> terminal_events)
         (snd (tick constants1 ?x world_speaking))) = [''speechstop'']" by simp
  from c1 h have b: "\<not> speechStarted (fst (fst (tick constants1 ?x world_speaking)))" by blast
  from c1 r have c: "\<exists>k. 0 < k \<and> k < 2 \<and> ''speechstart'' \<in> emitted (snd (run constants1 inputs1 world_speaking) ! k)"
    by blast
  from h a b r c show ?thesis by blast
qed

section \<open>The events of a tick\<close>

lemma tick0_events:
  "snd (tick constants0 (input_at (1 / 2) 1000) world0) =
    [\<lparr>ev_type = ''speechstart'', ev_ref = 1,
       ev_detail = \<lparr>d_event = ''signal'', d_volume = Fin (1 / 2), d_timestamp = Fin 1000,
          d_duration = Some (Fin 1000), d_items = Some 1, d_abort = None\<rparr>\<rparr>,
     \<lparr>ev_type = ''signal'', ev_ref = 1,
       ev_detail = \<lparr>d_event = ''signal'', d_volume = Fin (1 / 2), d_timestamp = Fin 1000,
          d_duration = Some (Fin 1000), d_items = Some 1, d_abort = None\<rparr>\<rparr>,
     \<lparr>ev_type = ''unmutedmic'', ev_ref = 1,
       ev_detail = \<lparr>d_event = ''signal'', d_volume = Fin (1 / 2), d_timestamp = Fin 1000,
          d_duration = Some (Fin 1000), d_items = Some 1, d_abort = None\<rparr>\<rparr>]"
  by (simp add: eval_defs)

lemma world0_signal:
  "recordingEnabled (fst world0)" "classify (meter (input_at (1 / 2) 1000)) (fst world0) = ''signal''"
  "\<not> speechStarted (fst world0)" "speechstartTime (fst world0) = Fin 0"
  by (simp_all add: classify_def eval_defs)

text \<open>
  C3, as stated, fails on the duration: at the first signal tick of a new detector, read at
  time 1000, the payload of \<open>speechstart\<close> has the duration 1000, not 0.
\<close>

theorem speechstart_duration_counterexample:
  "recordingEnabled (fst world0)
   \<and> classify (meter (input_at (1 / 2) 1000)) (fst world0) = ''signal''
   \<and> \<not> speechStarted (fst world0)
   \<and> ev_type (hd (snd (tick constants0 (input_at (1 / 2) 1000) world0))) = ''speechstart''
   \<and> d_duration (ev_detail (hd (snd (tick constants0 (input_at (1 / 2) 1000) world0)))) = Some (Fin 1000)
   \<and> d_duration (ev_detail (hd (snd (tick constants0 (input_at (1 / 2) 1000) world0)))) \<noteq> Some (Fin 0)"
  by (simp add: world0_signal tick0_events)

lemma tick_speechstart_payload:
  assumes "e \<in> set (snd (tick C x w))" "ev_type e = ''speechstart''"
  shows "ev_detail e = sample_payload x (fst w)"
proof -
  let ?w1 = "fst (prerecording (meter x) (now_prerecording x) w)"
  from assms have np: "ev_type e \<noteq> ''prespeechstart''" by simp
  from tick_derived_event [OF assms(1) np]
  have e1: "e \<in> set (snd (sampleThresholdsDecision C (meter x) (now_sampling x) ?w1))" by simp
  from sampleThresholdsDecision_payload [OF e1] assms(2)
  have p: "(ev_detail e)\<lparr> d_abort := None \<rparr> = sample_payload x (fst w)" and "d_abort (ev_detail e) = None"
    by (auto simp add: prerecording_this)
  then show ?thesis by (metis detail.update_convs(6) detail.surjective detail.select_convs(6))
qed


lemma tick_signal_this:
  assumes "recordingEnabled (fst w)" "classify (meter x) (fst w) = ''signal''"
  shows "speechstartTime (fst (fst (tick C x w))) =
           (if speechStarted (fst w) then speechstartTime (fst w) else now_sampling x)"
    and "speechVolumesList (fst (fst (tick C x w))) =
           (if speechStarted (fst w) then speechVolumesList (fst w) else []) @ [volume (meter x)]"
  using assms
  by (auto simp add: tick_this prerecording_this sampleThresholdsDecision_def classify_def
        signal_this Let_def split: if_splits)

text \<open>
  C3, amended. On a signal tick while \<open>speechStarted\<close> is false, \<open>speechstart\<close> is dispatched,
  and its payload carries as duration the time read by the tick less the previous
  \<open>speechstartTime\<close>; the tick sets \<open>speechStarted\<close>, sets \<open>speechstartTime\<close> to the time
  read, and leaves in \<open>speechVolumesList\<close> the current volume alone (the list is emptied,
  then the volume is pushed).
\<close>

theorem first_signal_tick_opens_segment:
  "recordingEnabled (fst w) \<Longrightarrow> classify (meter x) (fst w) = ''signal'' \<Longrightarrow> \<not> speechStarted (fst w) \<Longrightarrow>
     ''speechstart'' \<in> emitted (snd (tick C x w))
   \<and> (\<forall>e\<in>set (snd (tick C x w)). ev_type e = ''speechstart'' \<longrightarrow>
         d_duration (ev_detail e) = Some (js_sub (now_sampling x) (speechstartTime (fst w))))
   \<and> speechStarted (fst (fst (tick C x w)))
   \<and> speechstartTime (fst (fst (tick C x w))) = now_sampling x
   \<and> speechVolumesList (fst (fst (tick C x w))) = [volume (meter x)]"
  by (simp add: tick_speechstart_iff tick_speechStarted tick_signal_this tick_speechstart_payload
        sample_payload_def)

theorem first_signal_tick_opens_segment_witness:
  "recordingEnabled (fst world0)
   \<and> classify (meter (input_at (1 / 2) 1000)) (fst world0) = ''signal''
   \<and> \<not> speechStarted (fst world0)
   \<and> ''speechstart'' \<in> emitted (snd (tick constants0 (input_at (1 / 2) 1000) world0))
   \<and> speechStarted (fst (fst (tick constants0 (input_at (1 / 2) 1000) world0)))
   \<and> speechstartTime (fst (fst (tick constants0 (input_at (1 / 2) 1000) world0))) = Fin 1000
   \<and> speechVolumesList (fst (fst (tick constants0 (input_at (1 / 2) 1000) world0))) = [Fin (1 / 2)]"
  using first_signal_tick_opens_segment [OF world0_signal(1) world0_signal(2) world0_signal(3), of constants0] world0_signal
  by (simp add: input_at_def meter_at_def)

text \<open>
  C5, as stated, fails for \<open>speechstart\<close>: at the first signal tick of a new detector the
  first event dispatched is \<open>speechstart\<close> and the second one is \<open>signal\<close>.
\<close>

theorem speechstart_precedes_signal_counterexample:
  "map ev_type (snd (tick constants0 (input_at (1 / 2) 1000) world0)) ! 0 = ''speechstart''
   \<and> map ev_type (snd (tick constants0 (input_at (1 / 2) 1000) world0)) ! 1 = ''signal''"
  by (simp add: tick0_events)

text \<open>
  C5, amended. In every tick, a terminal event (\<open>speechstop\<close>, \<open>speechabort\<close>) or a
  microphone event (\<open>mutedmic\<close>, \<open>unmutedmic\<close>) is dispatched after a sampling event of the
  tick; \<open>speechstart\<close> is dispatched before any sampling event of its tick, and the event
  right after it is \<open>signal\<close>.
\<close>

theorem sampling_event_order:
  "(\<forall>j<length (snd (tick C x w)).
      map ev_type (snd (tick C x w)) ! j \<in> terminal_events \<union> mic_events \<longrightarrow>
      (\<exists>i<j. map ev_type (snd (tick C x w)) ! i \<in> sampling_events))
   \<and> (\<forall>j<length (snd (tick C x w)).
      map ev_type (snd (tick C x w)) ! j = ''speechstart'' \<longrightarrow>
      Suc j < length (snd (tick C x w)) \<and> map ev_type (snd (tick C x w)) ! Suc j = ''signal''
      \<and> (\<forall>i\<le>j. map ev_type (snd (tick C x w)) ! i \<notin> sampling_events))"
proof -
  have len: "length (snd (tick C x w)) = length (map ev_type (snd (tick C x w)))" by simp
  show ?thesis
    using verdict_type_cases [of C "js_sub (now_sampling x) (speechstartTime (fst w))" "fst w"]
    unfolding len tick_types sampling_types_def terminal_events_def mic_events_def sampling_events_def
    by (auto simp: nth_Cons' less_Suc_eq split: if_splits)
qed


theorem sampling_event_order_witness:
  "(2::nat) < length (snd (tick constants0 (input_at (1 / 2) 1000) world0))
   \<and> map ev_type (snd (tick constants0 (input_at (1 / 2) 1000) world0)) ! 2 \<in> terminal_events \<union> mic_events
   \<and> (\<exists>i. i < 2 \<and> map ev_type (snd (tick constants0 (input_at (1 / 2) 1000) world0)) ! i \<in> sampling_events)
   \<and> (0::nat) < length (snd (tick constants0 (input_at (1 / 2) 1000) world0))
   \<and> map ev_type (snd (tick constants0 (input_at (1 / 2) 1000) world0)) ! 0 = ''speechstart''
   \<and> map ev_type (snd (tick constants0 (input_at (1 / 2) 1000) world0)) ! Suc 0 = ''signal''"
proof -
  let ?evs = "snd (tick constants0 (input_at (1 / 2) 1000) world0)"
  have a: "(2::nat) < length ?evs \<and> map ev_type ?evs ! 2 \<in> terminal_events \<union> mic_events"
    by (simp add: tick0_events mic_events_def)
  have b: "(0::nat) < length ?evs \<and> map ev_type ?evs ! 0 = ''speechstart''"
    by (simp add: tick0_events)
  note c5 = sampling_event_order [of constants0 "input_at (1 / 2) 1000" world0]
  from c5 a have "\<exists>i<2. map ev_type ?evs ! i \<in> sampling_events" by blast
  moreover from c5 b have "map ev_type ?evs ! Suc 0 = ''signal''" by blast
  ultimately show ?thesis using a b by blast
qed

text \<open>
  C10. Every derived event of a tick (\<open>speechstart\<close>, \<open>speechstop\<close>, \<open>speechabort\<close>,
  \<open>mutedmic\<close>, \<open>unmutedmic\<close>) is dispatched with the payload object of the sampling event of
  the tick: the same address, the event field naming the sampling event, and the same
  content but for \<open>abort\<close>. So a terminal event carries the event field \<open>silence\<close> and a
  number of items equal to \<open>maxSilenceItems\<close>, \<open>speechstart\<close> and the \<open>unmutedmic\<close> of a
  signal tick carry \<open>signal\<close>, and \<open>mutedmic\<close> carries \<open>mute\<close>.
\<close>

theorem derived_events_share_payload:
  "\<forall>e\<in>set (snd (tick C x w)). ev_type e \<in> derived_events \<longrightarrow>
     (\<exists>s\<in>set (snd (tick C x w)). ev_type s \<in> sampling_events \<and> ev_ref e = ev_ref s
          \<and> d_event (ev_detail e) = ev_type s
          \<and> (ev_detail e)\<lparr> d_abort := None \<rparr> = (ev_detail s)\<lparr> d_abort := None \<rparr>)
     \<and> (ev_type e \<in> terminal_events \<longrightarrow> d_event (ev_detail e) = ''silence''
           \<and> (\<exists>n. d_items (ev_detail e) = Some n \<and> js_eq (js_nat n) (maxSilenceItems (fst w))))
     \<and> (ev_type e = ''speechstart'' \<longrightarrow> d_event (ev_detail e) = ''signal'')
     \<and> (ev_type e = ''unmutedmic'' \<and> classify (meter x) (fst w) = ''signal'' \<longrightarrow>
           d_event (ev_detail e) = ''signal'')
     \<and> (ev_type e = ''mutedmic'' \<longrightarrow> d_event (ev_detail e) = ''mute'')"
proof (intro ballI impI)
  fix e assume e: "e \<in> set (snd (tick C x w))" and d: "ev_type e \<in> derived_events"
  let ?w1 = "fst (prerecording (meter x) (now_prerecording x) w)"
  let ?evs = "snd (sampleThresholdsDecision C (meter x) (now_sampling x) ?w1)"
  from d have np: "ev_type e \<noteq> ''prespeechstart''" by (auto simp add: derived_events_def)
  from tick_derived_event [OF e np] have re: "recordingEnabled (fst w)" and e1: "e \<in> set ?evs" by simp_all
  have sub: "set ?evs \<subseteq> set (snd (tick C x w))" using re by (simp add: tick_events)
  from sampleThresholdsDecision_payload [OF e1]
  have pe: "ev_ref e = length (snd ?w1)" "(ev_detail e)\<lparr> d_abort := None \<rparr> = sample_payload x (fst w)"
    by (simp_all add: prerecording_this)
  from sampling_event_exists [of C x ?w1] obtain s where
    s: "s \<in> set ?evs" "ev_type s = classify (meter x) (fst w)" by (auto simp add: prerecording_this)
  from sampleThresholdsDecision_payload [OF s(1)]
  have ps: "ev_ref s = length (snd ?w1)" "(ev_detail s)\<lparr> d_abort := None \<rparr> = sample_payload x (fst w)"
    by (simp_all add: prerecording_this)
  have ev: "d_event (ev_detail e) = classify (meter x) (fst w)"
    using arg_cong [OF pe(2), of d_event] by (simp add: sample_payload_def)
  have it: "d_items (ev_detail e) = d_items (sample_payload x (fst w))"
    using arg_cong [OF pe(2), of d_items] by simp
  have ty: "ev_type e \<in> set (sampling_types C x (fst w))"
    using e1 sampleThresholdsDecision_types [of C x ?w1, symmetric] by (simp add: prerecording_this)
  note mem = sampling_types_mem [OF ty]
  have 1: "\<exists>s\<in>set (snd (tick C x w)). ev_type s \<in> sampling_events \<and> ev_ref e = ev_ref s
          \<and> d_event (ev_detail e) = ev_type s
          \<and> (ev_detail e)\<lparr> d_abort := None \<rparr> = (ev_detail s)\<lparr> d_abort := None \<rparr>"
    using s sub pe ps ev classify_sampling [of "meter x" "fst w"] by (intro bexI [of _ s]) auto
  have 2: "ev_type e \<in> terminal_events \<longrightarrow> d_event (ev_detail e) = ''silence''
           \<and> (\<exists>n. d_items (ev_detail e) = Some n \<and> js_eq (js_nat n) (maxSilenceItems (fst w)))"
    using mem(1) ev it by (auto simp add: sample_payload_def resolves_def)
  have 3: "ev_type e = ''speechstart'' \<longrightarrow> d_event (ev_detail e) = ''signal''"
    using mem(2) ev by simp
  have 4: "ev_type e = ''unmutedmic'' \<and> classify (meter x) (fst w) = ''signal'' \<longrightarrow>
           d_event (ev_detail e) = ''signal''" using ev by simp
  have 5: "ev_type e = ''mutedmic'' \<longrightarrow> d_event (ev_detail e) = ''mute''"
    using mem(3) ev by simp
  from 1 2 3 4 5 show "(\<exists>s\<in>set (snd (tick C x w)). ev_type s \<in> sampling_events \<and> ev_ref e = ev_ref s
          \<and> d_event (ev_detail e) = ev_type s
          \<and> (ev_detail e)\<lparr> d_abort := None \<rparr> = (ev_detail s)\<lparr> d_abort := None \<rparr>)
     \<and> (ev_type e \<in> terminal_events \<longrightarrow> d_event (ev_detail e) = ''silence''
           \<and> (\<exists>n. d_items (ev_detail e) = Some n \<and> js_eq (js_nat n) (maxSilenceItems (fst w))))
     \<and> (ev_type e = ''speechstart'' \<longrightarrow> d_event (ev_detail e) = ''signal'')
     \<and> (ev_type e = ''unmutedmic'' \<and> classify (meter x) (fst w) = ''signal'' \<longrightarrow>
           d_event (ev_detail e) = ''signal'')
     \<and> (ev_type e = ''mutedmic'' \<longrightarrow> d_event (ev_detail e) = ''mute'')" by blast
qed


theorem derived_events_share_payload_witness:
  "hd (snd (tick constants0 (input_at (1 / 2) 1000) world0))
      \<in> set (snd (tick constants0 (input_at (1 / 2) 1000) world0))
   \<and> ev_type (hd (snd (tick constants0 (input_at (1 / 2) 1000) world0))) \<in> derived_events
   \<and> ev_type (hd (snd (tick constants0 (input_at (1 / 2) 1000) world0))) = ''speechstart''
   \<and> d_event (ev_detail (hd (snd (tick constants0 (input_at (1 / 2) 1000) world0)))) = ''signal''"
proof -
  let ?evs = "snd (tick constants0 (input_at (1 / 2) 1000) world0)"
  have a: "hd ?evs \<in> set ?evs" by (simp add: tick0_events)
  have b: "ev_type (hd ?evs) \<in> derived_events" "ev_type (hd ?evs) = ''speechstart''"
    by (simp_all add: tick0_events derived_events_def)
  from derived_events_share_payload [of constants0 "input_at (1 / 2) 1000" world0] a b
  have "d_event (ev_detail (hd ?evs)) = ''signal''" by blast
  with a b show ?thesis by blast
qed

section \<open>The heartbeat\<close>

lemma sampleThresholdsDecision_config:
  "prerecordingItems (fst (fst (sampleThresholdsDecision C m t w))) = prerecordingItems (fst w)"
  "timeoutMilliSecs (fst (fst (sampleThresholdsDecision C m t w))) = timeoutMilliSecs (fst w)"
  "prespeechstartMilliSecs (fst (fst (sampleThresholdsDecision C m t w))) = prespeechstartMilliSecs (fst w)"
  by (simp_all add: sampleThresholdsDecision_def Let_def mute_this signal_this silence_this)

lemma tick_config:
  "prerecordingItems (fst (fst (tick C x w))) =
     (if threshold_reached (fst w) then 0 else prerecordingItems (fst w) + 1)"
  "timeoutMilliSecs (fst (fst (tick C x w))) = timeoutMilliSecs (fst w)"
  "prespeechstartMilliSecs (fst (fst (tick C x w))) = prespeechstartMilliSecs (fst w)"
  by (simp_all add: tick_this sampleThresholdsDecision_config prerecording_this)

lemma after_tick_config:
  "prerecordingItems (fst (after_tick C x w)) =
     (if threshold_reached (fst w) then 0 else prerecordingItems (fst w) + 1)"
  "timeoutMilliSecs (fst (after_tick C x w)) = timeoutMilliSecs (fst w)"
  "prespeechstartMilliSecs (fst (after_tick C x w)) = prespeechstartMilliSecs (fst w)"
  by (simp_all add: after_tick_def stop_def tick_config)

lemma tick_prespeechstart_iff:
  "(''prespeechstart'' \<in> emitted (snd (tick C x w))) =
     (threshold_reached (fst w) \<and> \<not> speechStarted (fst w))"
  using sampling_types_mem(6) [of "''prespeechstart''" C x "fst w"]
  by (auto simp add: emitted_tick)

lemma threshold_reached_Fin:
  "timeoutMilliSecs this = Fin t \<Longrightarrow> prespeechstartMilliSecs this = Fin p \<Longrightarrow>
     threshold_reached this = (p \<le> real (prerecordingItems this + 1) * t)"
  by (auto simp add: threshold_reached_def js_ge_def js_nat_def)

lemma run_prespeechstart_bound:
  "timeoutMilliSecs (fst w) = Fin t \<Longrightarrow> 0 \<le> t \<Longrightarrow> prespeechstartMilliSecs (fst w) = Fin p \<Longrightarrow>
   prerecordingItems (fst w) \<le> n \<Longrightarrow> j < length (snd (run C xs w)) \<Longrightarrow>
   ''prespeechstart'' \<in> emitted (snd (run C xs w) ! j) \<Longrightarrow>
   p \<le> real (n + j + 1) * t"
proof (induction xs arbitrary: w j n)
  case Nil
  then show ?case by simp
next
  case (Cons x xs)
  show ?case
  proof (cases j)
    case 0
    with Cons.prems have "''prespeechstart'' \<in> emitted (snd (tick C x w))"
      by (simp add: run_Cons split: if_splits)
    then have "threshold_reached (fst w)" by (simp add: tick_prespeechstart_iff)
    with Cons.prems have "p \<le> real (prerecordingItems (fst w) + 1) * t"
      by (simp add: threshold_reached_Fin)
    also have "\<dots> \<le> real (n + j + 1) * t"
      using Cons.prems(2,4) by (intro mult_right_mono) simp_all
    finally show ?thesis .
  next
    case (Suc j')
    with Cons.prems have j': "j' < length (snd (run C xs (after_tick C x w)))"
      and e: "''prespeechstart'' \<in> emitted (snd (run C xs (after_tick C x w)) ! j')"
      by (simp_all add: run_Cons split: if_splits)
    have n: "prerecordingItems (fst (after_tick C x w)) \<le> n + 1"
      using Cons.prems(4) by (simp add: after_tick_config)
    have "p \<le> real (n + 1 + j' + 1) * t"
      using Cons.IH [OF _ Cons.prems(2) _ n j' e] Cons.prems(1,3) by (simp add: after_tick_config)
    with Suc show ?thesis by simp
  qed
qed

lemma run_between_prespeechstarts:
  "timeoutMilliSecs (fst w) = Fin t \<Longrightarrow> 0 \<le> t \<Longrightarrow> prespeechstartMilliSecs (fst w) = Fin p \<Longrightarrow>
   i < j \<Longrightarrow> j < length (snd (run C xs w)) \<Longrightarrow>
   ''prespeechstart'' \<in> emitted (snd (run C xs w) ! i) \<Longrightarrow>
   ''prespeechstart'' \<in> emitted (snd (run C xs w) ! j) \<Longrightarrow>
   p \<le> real (j - i) * t"
proof (induction xs arbitrary: w i j)
  case Nil
  then show ?case by simp
next
  case (Cons x xs)
  from Cons.prems obtain j' where j: "j = Suc j'" by (cases j) auto
  with Cons.prems have j': "j' < length (snd (run C xs (after_tick C x w)))"
    and ej: "''prespeechstart'' \<in> emitted (snd (run C xs (after_tick C x w)) ! j')"
    and go: "\<not> stopRunning (fst (after_tick C x w))"
    by (simp_all add: run_Cons split: if_splits)
  have t': "timeoutMilliSecs (fst (after_tick C x w)) = Fin t"
    and p': "prespeechstartMilliSecs (fst (after_tick C x w)) = Fin p"
    using Cons.prems(1,3) by (simp_all add: after_tick_config)
  show ?case
  proof (cases i)
    case 0
    with Cons.prems have "''prespeechstart'' \<in> emitted (snd (tick C x w))"
      by (simp add: run_Cons split: if_splits)
    then have "prerecordingItems (fst (after_tick C x w)) \<le> 0"
      by (simp add: tick_prespeechstart_iff after_tick_config)
    from run_prespeechstart_bound [OF t' Cons.prems(2) p' this j' ej]
    show ?thesis using 0 j by simp
  next
    case (Suc i')
    with Cons.prems j go have "i' < j'"
      and ei: "''prespeechstart'' \<in> emitted (snd (run C xs (after_tick C x w)) ! i')"
      by (simp_all add: run_Cons)
    from Cons.IH [OF t' Cons.prems(2) p' this(1) j' ei ej] show ?thesis using Suc j by simp
  qed
qed

text \<open>
  C8. \<open>prespeechstart\<close> is dispatched only on a tick that begins with \<open>speechStarted\<close> false
  and on which the counter, once incremented, times \<open>timeoutMilliSecs\<close> has reached
  \<open>prespeechstartMilliSecs\<close>. Whenever that threshold is reached the counter is 0 after
  \<open>prerecording\<close> and after the tick, with or without the event. In a run with a tick
  interval \<open>t \<ge> 0\<close> and a window \<open>p\<close>, two ticks that dispatch \<open>prespeechstart\<close> are at
  least \<open>p\<close> milliseconds of ticks apart: at most one event per window.
\<close>

theorem prespeechstart_once_per_window:
  "(''prespeechstart'' \<in> emitted (snd (tick C x w)) \<longrightarrow> \<not> speechStarted (fst w))
   \<and> (''prespeechstart'' \<in> emitted (snd (tick C x w)) \<longrightarrow> threshold_reached (fst w))
   \<and> (threshold_reached (fst w) \<longrightarrow>
         prerecordingItems (fst (fst (prerecording (meter x) (now_prerecording x) w))) = 0
       \<and> prerecordingItems (fst (fst (tick C x w))) = 0)
   \<and> (timeoutMilliSecs (fst w) = Fin t \<and> 0 \<le> t \<and> prespeechstartMilliSecs (fst w) = Fin p \<longrightarrow>
        (\<forall>i j. i < j \<and> j < length (snd (run C xs w)) \<and>
            ''prespeechstart'' \<in> emitted (snd (run C xs w) ! i) \<and>
            ''prespeechstart'' \<in> emitted (snd (run C xs w) ! j)
          \<longrightarrow> p \<le> real (j - i) * t))"
  using run_between_prespeechstarts [of w t p _ _ C xs]
  by (simp add: tick_prespeechstart_iff tick_config prerecording_this)

lemmas eval_defs2 = eval_defs config_pre_def world_pre_def inputs_pre_def


lemma run_pre_types:
  "map (map ev_type) (snd (run constants0 inputs_pre world_pre)) =
     [[''prespeechstart'', ''mute''], [''prespeechstart'', ''mute'']]"
  by (simp add: run_Cons after_tick_def stop_def eval_defs2)

lemma run_pre_emitted:
  "length (snd (run constants0 inputs_pre world_pre)) = 2"
  "emitted (snd (run constants0 inputs_pre world_pre) ! 0) = {''prespeechstart'', ''mute''}"
  "emitted (snd (run constants0 inputs_pre world_pre) ! 1) = {''prespeechstart'', ''mute''}"
proof -
  let ?tr = "snd (run constants0 inputs_pre world_pre)"
  have len: "length (map (map ev_type) ?tr) = 2" by (simp only: run_pre_types) simp
  then show l: "length ?tr = 2" by simp
  have n: "\<And>i. i < 2 \<Longrightarrow> emitted (?tr ! i) = set (map (map ev_type) ?tr ! i)"
    using l by (simp add: emitted_def)
  show "emitted (?tr ! 0) = {''prespeechstart'', ''mute''}"
    using n [of 0] by (simp only: run_pre_types) simp
  show "emitted (?tr ! 1) = {''prespeechstart'', ''mute''}"
    using n [of 1] by (simp only: run_pre_types) simp
qed

lemma world_pre_facts:
  "\<not> speechStarted (fst world_pre)" "threshold_reached (fst world_pre)"
  "timeoutMilliSecs (fst world_pre) = Fin 50" "prespeechstartMilliSecs (fst world_pre) = Fin 50"
  by (simp_all add: threshold_reached_def eval_defs2)

theorem prespeechstart_once_per_window_witness:
  "''prespeechstart'' \<in> emitted (snd (tick constants0 (input_at 0 1000) world_pre))
   \<and> \<not> speechStarted (fst world_pre)
   \<and> threshold_reached (fst world_pre)
   \<and> prerecordingItems (fst (fst (tick constants0 (input_at 0 1000) world_pre))) = 0
   \<and> timeoutMilliSecs (fst world_pre) = Fin 50 \<and> (0::real) \<le> 50
   \<and> prespeechstartMilliSecs (fst world_pre) = Fin 50
   \<and> (0::nat) < 1 \<and> 1 < length (snd (run constants0 inputs_pre world_pre))
   \<and> ''prespeechstart'' \<in> emitted (snd (run constants0 inputs_pre world_pre) ! 0)
   \<and> ''prespeechstart'' \<in> emitted (snd (run constants0 inputs_pre world_pre) ! 1)
   \<and> (50::real) \<le> real (1 - 0) * 50"
proof -
  have e: "''prespeechstart'' \<in> emitted (snd (tick constants0 (input_at 0 1000) world_pre))"
    by (simp add: tick_prespeechstart_iff world_pre_facts)
  have r: "(0::nat) < 1 \<and> 1 < length (snd (run constants0 inputs_pre world_pre))
     \<and> ''prespeechstart'' \<in> emitted (snd (run constants0 inputs_pre world_pre) ! 0)
     \<and> ''prespeechstart'' \<in> emitted (snd (run constants0 inputs_pre world_pre) ! 1)"
    using run_pre_emitted by simp
  have c: "timeoutMilliSecs (fst world_pre) = Fin 50 \<and> (0::real) \<le> 50
     \<and> prespeechstartMilliSecs (fst world_pre) = Fin 50"
    by (simp add: world_pre_facts)
  note c8 = prespeechstart_once_per_window [of constants0 "input_at 0 1000" world_pre 50 50 inputs_pre]
  from c8 e have a: "\<not> speechStarted (fst world_pre)" "threshold_reached (fst world_pre)" by blast+
  from c8 a(2) have b: "prerecordingItems (fst (fst (tick constants0 (input_at 0 1000) world_pre))) = 0"
    by blast
  from c8 c r have d: "(50::real) \<le> real (1 - 0) * 50" by blast
  from e a b c r d show ?thesis by blast
qed

section \<open>The volumes of a speech\<close>

lemma sampleThresholdsDecision_speechVolumesList:
  "speechVolumesList (fst (fst (sampleThresholdsDecision C m t w))) =
     (if classify m (fst w) = ''signal''
      then (if speechStarted (fst w) then speechVolumesList (fst w) else []) @ [volume m]
      else speechVolumesList (fst w))"
  by (simp add: sampleThresholdsDecision_def classify_def Let_def mute_this signal_this silence_this)

lemma tick_speechVolumesList:
  "speechVolumesList (fst (fst (tick C x w))) =
     (if recordingEnabled (fst w) \<and> classify (meter x) (fst w) = ''signal''
      then (if speechStarted (fst w) then speechVolumesList (fst w) else []) @ [volume (meter x)]
      else speechVolumesList (fst w))"
  by (simp add: tick_this sampleThresholdsDecision_speechVolumesList prerecording_this)

lemma tick_segment_inv: "segment_inv (fst w) \<Longrightarrow> segment_inv (fst (fst (tick C x w)))"
  by (simp add: segment_inv_def tick_speechStarted tick_speechVolumesList)

lemma after_tick_segment_inv: "segment_inv (fst w) \<Longrightarrow> segment_inv (fst (after_tick C x w))"
  using tick_segment_inv [of w C x]
  by (simp add: after_tick_def stop_def segment_inv_def)

lemma run_segment_inv: "segment_inv (fst w) \<Longrightarrow> segment_inv (fst (fst (run C xs w)))"
proof (induction xs arbitrary: w)
  case Nil
  then show ?case by simp
next
  case (Cons x xs)
  from Cons.prems have "segment_inv (fst (after_tick C x w))" by (rule after_tick_segment_inv)
  with Cons.IH show ?case by (simp add: run_Cons)
qed

lemma init_segment_inv: "segment_inv (AudioDetection_init C cfg)"
  by (simp add: segment_inv_def AudioDetection_init_def)

lemma start_segment_inv: "segment_inv (fst w) \<Longrightarrow> segment_inv (fst (fst (start C xs w)))"
  using run_segment_inv [of "((fst w)\<lparr> stopRunning := False \<rparr>, snd w)" C xs]
  by (simp add: start_def segment_inv_def)

text \<open>
  C9. In every state that a run reaches from a new detector, \<open>speechVolumesList\<close> is not
  empty while \<open>speechStarted\<close> is true, so its length, the divisor of the average, is not 0.
  Hence the list averaged on a tick that dispatches a terminal event is not empty; and the
  tick that dispatches \<open>speechstart\<close> leaves a list that is not empty. The property is
  kept by every further \<open>start\<close>, from any state that has it.
\<close>

theorem speechVolumesList_nonempty_while_speechStarted:
  "(speechStarted (fst (fst (run C xs (AudioDetection_init C cfg, h)))) \<longrightarrow>
      speechVolumesList (fst (fst (run C xs (AudioDetection_init C cfg, h)))) \<noteq> []
    \<and> js_nat (length (speechVolumesList (fst (fst (run C xs (AudioDetection_init C cfg, h)))))) \<noteq> Fin 0)
   \<and> (emitted (snd (tick C x (fst (run C xs (AudioDetection_init C cfg, h))))) \<inter> terminal_events \<noteq> {} \<longrightarrow>
      speechVolumesList (fst (fst (run C xs (AudioDetection_init C cfg, h)))) \<noteq> [])
   \<and> (''speechstart'' \<in> emitted (snd (tick C x (fst (run C xs (AudioDetection_init C cfg, h))))) \<longrightarrow>
      speechVolumesList (fst (fst (tick C x (fst (run C xs (AudioDetection_init C cfg, h)))))) \<noteq> [])
   \<and> ((speechStarted (fst w) \<longrightarrow> speechVolumesList (fst w) \<noteq> []) \<longrightarrow>
        (speechStarted (fst (fst (start C ys w))) \<longrightarrow>
           speechVolumesList (fst (fst (start C ys w))) \<noteq> []))"
proof -
  let ?w = "fst (run C xs (AudioDetection_init C cfg, h))"
  have inv: "segment_inv (fst ?w)"
    using run_segment_inv [of "(AudioDetection_init C cfg, h)" C xs] by (simp add: init_segment_inv)
  have 1: "speechStarted (fst ?w) \<longrightarrow> speechVolumesList (fst ?w) \<noteq> []
      \<and> js_nat (length (speechVolumesList (fst ?w))) \<noteq> Fin 0"
    using inv by (simp add: segment_inv_def js_nat_def)
  have 2: "emitted (snd (tick C x ?w)) \<inter> terminal_events \<noteq> {} \<longrightarrow> speechVolumesList (fst ?w) \<noteq> []"
    using inv tick_terminal_requires [of C x ?w] by (auto simp add: segment_inv_def)
  have 3: "''speechstart'' \<in> emitted (snd (tick C x ?w)) \<longrightarrow>
      speechVolumesList (fst (fst (tick C x ?w))) \<noteq> []"
    by (simp add: tick_speechstart_iff tick_speechVolumesList)
  have 4: "(speechStarted (fst w) \<longrightarrow> speechVolumesList (fst w) \<noteq> []) \<longrightarrow>
        (speechStarted (fst (fst (start C ys w))) \<longrightarrow>
           speechVolumesList (fst (fst (start C ys w))) \<noteq> [])"
    using start_segment_inv [of w C ys] by (simp add: segment_inv_def)
  from 1 2 3 4 show ?thesis by blast
qed

theorem speechVolumesList_nonempty_while_speechStarted_witness:
  "speechStarted (fst (fst (run constants1 [input_at (1 / 2) 1000] (AudioDetection_init constants1 config_default, []))))
   \<and> speechVolumesList (fst (fst (run constants1 [input_at (1 / 2) 1000] (AudioDetection_init constants1 config_default, [])))) \<noteq> []
   \<and> emitted (snd (tick constants1 (input_at (1 / 1000) 1500)
         (fst (run constants1 [input_at (1 / 2) 1000] (AudioDetection_init constants1 config_default, []))))) \<inter> terminal_events \<noteq> {}"
proof -
  let ?w = "fst (run constants1 [input_at (1 / 2) 1000] (AudioDetection_init constants1 config_default, []))"
  have w: "?w = world_speaking"
    by (simp add: run_Cons after_tick_def stop_def world_speaking_def world1_def input_at_def)
  have a: "speechStarted (fst ?w)" unfolding w by (simp add: world_speaking_eq)
  have b: "emitted (snd (tick constants1 (input_at (1 / 1000) 1500) ?w)) \<inter> terminal_events \<noteq> {}"
    unfolding w tick_terminal_iff by (simp add: world_speaking_eq classify_def resolves_def eval_defs)
  from speechVolumesList_nonempty_while_speechStarted
         [of constants1 "[input_at (1 / 2) 1000]" config_default "[]" "input_at (1 / 1000) 1500"] a
  have "speechVolumesList (fst ?w) \<noteq> []" by blast
  with a b show ?thesis by blast
qed

section \<open>The constructor\<close>

text \<open>
  C7, as stated, fails: with thresholds where \<open>muteVolume\<close> is not below
  \<open>speakingMinVolume\<close>, and constants for which \<open>maxSilenceItems\<close> rounds to 0, the
  constructor returns the object.
\<close>

theorem misconfiguration_accepted_counterexample:
  "js_ge (muteVolume (AudioDetection_init constants_bad config_bad))
         (speakingMinVolume (AudioDetection_init constants_bad config_bad))
   \<and> maxSilenceItems (AudioDetection_init constants_bad config_bad) = Fin 0
   \<and> AudioDetection_new constants_bad config_bad = Inr (AudioDetection_init constants_bad config_bad)"
  by (simp add: AudioDetection_new_def AudioDetection_init_def constants_bad_def config_bad_def
        constants0_def config_default_def js_ge_def)

text \<open>
  C7, amended. The constructor validates nothing: for every value of the constants and every
  configuration it returns the object and no error, with the thresholds as configured (or
  their defaults), whatever they are.
\<close>

theorem constructor_never_rejects:
  "AudioDetection_new C cfg \<noteq> Inl ConfigError
   \<and> (\<exists>this. AudioDetection_new C cfg = Inr this
     \<and> muteVolume this = (case cfg_muteVolume cfg of None \<Rightarrow> VOLUME_MUTE C | Some v \<Rightarrow> v)
     \<and> speakingMinVolume this = (case cfg_speakingMinVolume cfg of None \<Rightarrow> VOLUME_SIGNAL C | Some v \<Rightarrow> v))"
  by (simp add: AudioDetection_new_def AudioDetection_init_def)

text \<open>
  C2 fails on the code: \<open>maxSilenceItems\<close> is computed from the constant
  \<open>SAMPLE_POLLING_MSECS\<close>, not from the configured \<open>timeoutMilliSecs\<close>. With a tick interval of
  100 ms and the constants 600 ms and 50 ms it is 12, where the interval in use gives 6.
\<close>

theorem maxSilenceItems_ignores_timeoutMilliSecs:
  "timeoutMilliSecs (AudioDetection_init constants0 config100) = Fin 100
   \<and> maxSilenceItems (AudioDetection_init constants0 config100) = Fin 12
   \<and> js_round (js_div (MAX_INTERSPEECH_SILENCE_MSECS constants0)
                       (timeoutMilliSecs (AudioDetection_init constants0 config100))) = Fin 6"
  by (simp add: AudioDetection_init_def config100_def constants0_def config_default_def)

end
